theory Spec2Isabelle
  imports Complex_Main
begin

section \<open>Numbers, configuration and constants\<close>

text \<open>
  The video builder of \<^verbatim>\<open>pipeline/video_builder.py\<close> computes with Python floats and
  unbounded integers. Integers are modelled by \<^typ>\<open>int\<close>; floats are modelled by exact
  \<^typ>\<open>real\<close> numbers, so every statement below is about the arithmetic the code writes
  down, without the rounding of IEEE doubles. Python's \<^verbatim>\<open>int(x)\<close> on a float truncates
  towards zero, \<^verbatim>\<open>//\<close> on integers is floor division (\<open>div\<close> on \<^typ>\<open>int\<close>).
\<close>

definition py_int :: "real \<Rightarrow> int" where
  "py_int x = (if 0 \<le> x then \<lfloor>x\<rfloor> else \<lceil>x\<rceil>)"

text \<open>The four video settings of \<^verbatim>\<open>config.py\<close>, read from the environment with defaults.\<close>

record config =
  VIDEO_WIDTH :: int
  VIDEO_HEIGHT :: int
  VIDEO_FPS :: int
  MAX_DURATION :: int

definition default_config :: config where
  "default_config =
     \<lparr>VIDEO_WIDTH = 1080, VIDEO_HEIGHT = 1920, VIDEO_FPS = 30, MAX_DURATION = 59\<rparr>"

definition KB_SCALE :: real where
  "KB_SCALE = 125 / 100"

definition CROSSFADE_DURATION :: real where
  "CROSSFADE_DURATION = 6 / 10"

definition KB_EFFECTS :: "string list" where
  "KB_EFFECTS =
     [''zoom_in'', ''zoom_out'', ''pan_left'', ''pan_right'', ''pan_up'', ''pan_down'',
      ''zoom_in_pan_right'', ''zoom_out_pan_left'']"

text \<open>\<^verbatim>\<open>_smoothstep\<close>: clamp to \<open>[0,1]\<close>, then the Hermite cubic.\<close>

definition smoothstep :: "real \<Rightarrow> real" where
  "smoothstep t0 = (let t = max 0 (min 1 t0) in t * t * (3 - 2 * t))"

section \<open>Errors\<close>

datatype error =
    ValueError string
  | RuntimeError string
  | ZeroDivisionError
  | IndexError
  | AudioError

section \<open>Images and the Ken Burns engine\<close>

text \<open>
  A file system path is the list of its components. An image is known by the asset it was
  decoded from and by its size; pixel contents are not modelled. Pillow's \<^verbatim>\<open>resize\<close> and
  \<^verbatim>\<open>crop\<close> are modelled by their effect on the size: \<^verbatim>\<open>resize((w, h))\<close> gives a
  \<open>w \<times> h\<close> image, \<^verbatim>\<open>crop((l, u, r, b))\<close> gives an image of size \<open>(r - l) \<times> (b - u)\<close>.
\<close>

type_synonym path = "string list"

record image =
  img_asset :: path
  img_w :: int
  img_h :: int

definition pil_resize :: "image \<Rightarrow> int \<times> int \<Rightarrow> image" where
  "pil_resize img sz = img\<lparr>img_w := fst sz, img_h := snd sz\<rparr>"

definition pil_crop :: "image \<Rightarrow> int \<times> int \<times> int \<times> int \<Rightarrow> image" where
  "pil_crop img box =
     (case box of (l, u, r, b) \<Rightarrow> img\<lparr>img_w := r - l, img_h := b - u\<rparr>)"

text \<open>
  \<^verbatim>\<open>_resize_for_ken_burns\<close>: scale to fill the box \<open>KB_SCALE \<times> viewport\<close>, then centre-crop
  to exactly that box. The three true divisions raise \<^verbatim>\<open>ZeroDivisionError\<close> on a zero
  divisor.
\<close>

definition resize_for_ken_burns :: "config \<Rightarrow> image \<Rightarrow> error + image" where
  "resize_for_ken_burns cfg img =
     (let target_w = py_int (real_of_int (VIDEO_WIDTH cfg) * KB_SCALE);
          target_h = py_int (real_of_int (VIDEO_HEIGHT cfg) * KB_SCALE)
      in if target_h = 0 \<or> img_h img = 0 then Inl ZeroDivisionError
         else
           let target_ratio = real_of_int target_w / real_of_int target_h;
               img_ratio = real_of_int (img_w img) / real_of_int (img_h img)
           in if \<not> img_ratio > target_ratio \<and> img_w img = 0 then Inl ZeroDivisionError
              else
                let new_h = (if img_ratio > target_ratio then target_h
                             else py_int (real_of_int (img_h img) *
                                    (real_of_int target_w / real_of_int (img_w img))));
                    new_w = (if img_ratio > target_ratio
                             then py_int (real_of_int (img_w img) *
                                    (real_of_int target_h / real_of_int (img_h img)))
                             else target_w);
                    resized = pil_resize img (new_w, new_h);
                    left = (new_w - target_w) div 2;
                    top = (new_h - target_h) div 2
                in Inr (pil_crop resized (left, top, left + target_w, top + target_h)))"

text \<open>
  The result of \<^verbatim>\<open>_apply_ken_burns\<close>: the canvas it cropped, the box handed to
  \<^verbatim>\<open>img.crop\<close> (left, upper, right, lower), whether the crop was resampled, and the size
  of the frame it returns.
\<close>

record kb_frame =
  kb_canvas :: image
  kb_box :: "int \<times> int \<times> int \<times> int"
  kb_resampled :: bool
  kb_size :: "int \<times> int"

text \<open>
  Lines 151--197 of \<^verbatim>\<open>_apply_ken_burns\<close>: the crop \<open>(cx, cy, cw, ch)\<close> of each effect before
  clamping, for the eased time \<open>t\<close>. An effect name outside \<open>KB_EFFECTS\<close> keeps the default
  centre crop. The zoom effects divide by the canvas width.
\<close>

definition kb_rect ::
  "int \<Rightarrow> int \<Rightarrow> int \<Rightarrow> int \<Rightarrow> string \<Rightarrow> real \<Rightarrow> error + (int \<times> int \<times> int \<times> int)" where
  "kb_rect iw ih vw vh effect t =
     (let max_dx = iw - vw; max_dy = ih - vh
      in if effect = ''zoom_in'' then
           (if iw = 0 then Inl ZeroDivisionError
            else
              let scale = 1 - t * (1 - real_of_int vw / real_of_int iw);
                  cw = py_int (real_of_int iw * scale);
                  ch = py_int (real_of_int ih * scale)
              in Inr ((iw - cw) div 2, (ih - ch) div 2, cw, ch))
         else if effect = ''zoom_out'' then
           (if iw = 0 then Inl ZeroDivisionError
            else
              let scale = real_of_int vw / real_of_int iw
                            + t * (1 - real_of_int vw / real_of_int iw);
                  cw = py_int (real_of_int iw * scale);
                  ch = py_int (real_of_int ih * scale)
              in Inr ((iw - cw) div 2, (ih - ch) div 2, cw, ch))
         else if effect = ''pan_left'' then
           Inr (py_int (real_of_int max_dx * (1 - t)), max_dy div 2, vw, vh)
         else if effect = ''pan_right'' then
           Inr (py_int (real_of_int max_dx * t), max_dy div 2, vw, vh)
         else if effect = ''pan_up'' then
           Inr (max_dx div 2, py_int (real_of_int max_dy * (1 - t)), vw, vh)
         else if effect = ''pan_down'' then
           Inr (max_dx div 2, py_int (real_of_int max_dy * t), vw, vh)
         else if effect = ''zoom_in_pan_right'' then
           (if iw = 0 then Inl ZeroDivisionError
            else
              let scale = 1 - t * (1 - real_of_int vw / real_of_int iw) * (6 / 10);
                  cw = py_int (real_of_int iw * scale);
                  ch = py_int (real_of_int ih * scale)
              in Inr (py_int (real_of_int (iw - cw) * t), (ih - ch) div 2, cw, ch))
         else if effect = ''zoom_out_pan_left'' then
           (if iw = 0 then Inl ZeroDivisionError
            else
              let scale = real_of_int vw / real_of_int iw
                            + t * (1 - real_of_int vw / real_of_int iw) * (6 / 10);
                  cw = py_int (real_of_int iw * scale);
                  ch = py_int (real_of_int ih * scale)
              in Inr (py_int (real_of_int (iw - cw) * (1 - t)), (ih - ch) div 2, cw, ch))
         else Inr (max_dx div 2, max_dy div 2, vw, vh))"

text \<open>
  \<^verbatim>\<open>_apply_ken_burns\<close>: ease the progress, compute the effect's crop, clamp it to the image
  (lines 199--203), crop, and resample when the crop is not viewport-sized (lines 205--208).
\<close>

definition apply_ken_burns :: "config \<Rightarrow> image \<Rightarrow> string \<Rightarrow> real \<Rightarrow> error + kb_frame" where
  "apply_ken_burns cfg img effect progress =
     (let t = smoothstep progress;
          iw = img_w img; ih = img_h img;
          vw = VIDEO_WIDTH cfg; vh = VIDEO_HEIGHT cfg
      in case kb_rect iw ih vw vh effect t of
           Inl e \<Rightarrow> Inl e
         | Inr (cx0, cy0, cw0, ch0) \<Rightarrow>
             let cw = max 1 (min cw0 iw);
                 ch = max 1 (min ch0 ih);
                 cx = max 0 (min cx0 (iw - cw));
                 cy = max 0 (min cy0 (ih - ch));
                 cropped = pil_crop img (cx, cy, cx + cw, cy + ch)
             in if (img_w cropped, img_h cropped) \<noteq> (vw, vh)
                then Inr \<lparr>kb_canvas = img, kb_box = (cx, cy, cx + cw, cy + ch),
                          kb_resampled = True,
                          kb_size = (img_w (pil_resize cropped (vw, vh)),
                                     img_h (pil_resize cropped (vw, vh)))\<rparr>
                else Inr \<lparr>kb_canvas = img, kb_box = (cx, cy, cx + cw, cy + ch),
                          kb_resampled = False,
                          kb_size = (img_w cropped, img_h cropped)\<rparr>)"



section \<open>Frames and captions\<close>

text \<open>
  A caption cue as \<^verbatim>\<open>_parse_srt\<close> builds it (keys \<^verbatim>\<open>start\<close>, \<^verbatim>\<open>end\<close>, \<^verbatim>\<open>text\<close>).
  A rendered frame is described by what was composed into it: the scene it shows, the Ken
  Burns crop of that scene, the crossfade partner with its blend weight when
  \<^verbatim>\<open>Image.blend\<close> was applied, and the cues whose overlay was pasted, in paste order.
\<close>

record cue =
  cue_start :: real
  cue_end :: real
  cue_text :: string

record frame =
  fr_scene :: int
  fr_base :: kb_frame
  fr_blend :: "(kb_frame \<times> real) option"
  fr_captions :: "cue list"

definition paste_caption :: "frame \<Rightarrow> cue \<Rightarrow> frame" where
  "paste_caption fr cap = fr\<lparr>fr_captions := fr_captions fr @ [cap]\<rparr>"

text \<open>
  \<^verbatim>\<open>_composite_caption\<close>: the cues active at time \<open>t\<close>; the base frame itself when there
  is none, otherwise each active cue pasted in list order. (The font only decides pixels.)
\<close>

definition composite_caption :: "frame \<Rightarrow> cue list \<Rightarrow> real \<Rightarrow> frame" where
  "composite_caption base captions t =
     (let active = filter (\<lambda>c. cue_start c \<le> t \<and> t < cue_end c) captions
      in if active = [] then base else foldl paste_caption base active)"

section \<open>The world outside the program\<close>

text \<open>
  Files, external processes and the random generator are inputs of the model: what
  \<^verbatim>\<open>shutil.which\<close>/\<^verbatim>\<open>imageio_ffmpeg\<close> find, the length in milliseconds pydub reports for
  an audio file (\<open>None\<close> when decoding raises), the size of an image Pillow opens (\<open>None\<close>
  when it raises), the size of the frame ffmpeg extracts from a clip (\<open>None\<close> when the
  extraction or the decoding raises), which paths exist, the return code of the ffmpeg mixing
  run, the cues pysrt reads, the index \<^verbatim>\<open>random.choice\<close> picks at its \<open>i\<close>-th call, the
  number of frames the encoder takes before it closes its input (\<open>None\<close>: it never does),
  and the encoder's return code.
\<close>

record world =
  ffmpeg_exe :: "path option"
  audio_len_ms :: "path \<Rightarrow> nat option"
  image_size :: "path \<Rightarrow> (int \<times> int) option"
  clip_frame_size :: "path \<Rightarrow> (int \<times> int) option"
  file_exists :: "path \<Rightarrow> bool"
  mix_returncode :: "path \<Rightarrow> path \<Rightarrow> real \<Rightarrow> int"
  srt_cues :: "path \<Rightarrow> cue list"
  random_index :: "nat \<Rightarrow> nat"
  encoder_limit :: "nat option"
  encoder_returncode :: int

definition get_ffmpeg :: "world \<Rightarrow> error + path" where
  "get_ffmpeg w =
     (case ffmpeg_exe w of None \<Rightarrow> Inl (RuntimeError ''ffmpeg not found'') | Some f \<Rightarrow> Inr f)"

text \<open>\<^verbatim>\<open>_audio_duration\<close>: \<^verbatim>\<open>len(audio) / 1000.0\<close>.\<close>

definition audio_duration :: "world \<Rightarrow> path \<Rightarrow> error + real" where
  "audio_duration w audio_path =
     (case audio_len_ms w audio_path of None \<Rightarrow> Inl AudioError
      | Some ms \<Rightarrow> Inr (real ms / 1000))"

section \<open>Loading the visuals\<close>

text \<open>
  \<^verbatim>\<open>_load_images_for_kb\<close> and \<^verbatim>\<open>_extract_clip_frames_for_kb\<close>: every exception raised
  while opening, extracting or resizing one asset is caught inside the loop, and the loop goes
  on with the next asset.
\<close>

fun load_images_for_kb :: "config \<Rightarrow> world \<Rightarrow> path list \<Rightarrow> image list" where
  "load_images_for_kb cfg w [] = []"
| "load_images_for_kb cfg w (p # ps) =
     (case image_size w p of
        None \<Rightarrow> load_images_for_kb cfg w ps
      | Some sz \<Rightarrow>
          (case resize_for_ken_burns cfg \<lparr>img_asset = p, img_w = fst sz, img_h = snd sz\<rparr> of
             Inl e \<Rightarrow> load_images_for_kb cfg w ps
           | Inr img \<Rightarrow> img # load_images_for_kb cfg w ps))"

fun extract_clip_frames_for_kb :: "config \<Rightarrow> world \<Rightarrow> path list \<Rightarrow> image list" where
  "extract_clip_frames_for_kb cfg w [] = []"
| "extract_clip_frames_for_kb cfg w (cp # cps) =
     (case clip_frame_size w cp of
        None \<Rightarrow> extract_clip_frames_for_kb cfg w cps
      | Some sz \<Rightarrow>
          (case resize_for_ken_burns cfg \<lparr>img_asset = cp, img_w = fst sz, img_h = snd sz\<rparr> of
             Inl e \<Rightarrow> extract_clip_frames_for_kb cfg w cps
           | Inr img \<Rightarrow> img # extract_clip_frames_for_kb cfg w cps))"

text \<open>
  Lines 315--322 of \<^verbatim>\<open>build_video\<close>. \<^verbatim>\<open>background_clips\<close> may be \<^verbatim>\<open>None\<close>; an empty
  list and \<^verbatim>\<open>None\<close> are both falsy.
\<close>

definition prepare_visuals ::
  "config \<Rightarrow> world \<Rightarrow> path list \<Rightarrow> path list option \<Rightarrow> error + image list" where
  "prepare_visuals cfg w scene_images background_clips =
     (let loaded =
            (if scene_images \<noteq> [] then Inr (load_images_for_kb cfg w scene_images)
             else
               (case background_clips of
                  None \<Rightarrow> Inl (ValueError ''No scene images or background clips provided'')
                | Some clips \<Rightarrow>
                    if clips \<noteq> [] then Inr (extract_clip_frames_for_kb cfg w clips)
                    else Inl (ValueError ''No scene images or background clips provided'')))
      in case loaded of
           Inl e \<Rightarrow> Inl e
         | Inr kb_frames \<Rightarrow>
             if kb_frames = [] then Inl (ValueError ''Failed to prepare any visual frames'')
             else Inr kb_frames)"

text \<open>
  The visuals that remain after loading: those of the images when images were supplied,
  otherwise those of the clips.
\<close>

definition usable_visuals :: "config \<Rightarrow> world \<Rightarrow> path list \<Rightarrow> path list option \<Rightarrow> image list" where
  "usable_visuals cfg w scene_images background_clips =
     (if scene_images \<noteq> [] then load_images_for_kb cfg w scene_images
      else case background_clips of
             None \<Rightarrow> []
           | Some clips \<Rightarrow> extract_clip_frames_for_kb cfg w clips)"

section \<open>Audio\<close>

text \<open>
  \<^verbatim>\<open>_mix_audio\<close>. The mixed file is written beside the voiceover
  (\<^verbatim>\<open>voiceover.parent / "mixed_audio.aac"\<close>); \<^verbatim>\<open>subprocess.run\<close> is called without
  \<^verbatim>\<open>check\<close>, so a failing mixer only shows in the return code.
\<close>

definition mix_audio :: "world \<Rightarrow> path \<Rightarrow> path option \<Rightarrow> real \<Rightarrow> path" where
  "mix_audio w voiceover music dur =
     (case music of
        None \<Rightarrow> voiceover
      | Some m \<Rightarrow>
          if \<not> file_exists w m then voiceover
          else
            let mixed = butlast voiceover @ [''mixed_audio.aac'']
            in if mix_returncode w voiceover m dur \<noteq> 0 then voiceover else mixed)"

section \<open>The render loop\<close>

text \<open>Python list indexing: a negative index counts from the end, out of range raises.\<close>

definition py_index :: "'a list \<Rightarrow> int \<Rightarrow> error + 'a" where
  "py_index xs i =
     (if 0 \<le> i \<and> i < int (length xs) then Inr (xs ! nat i)
      else if i < 0 \<and> - int (length xs) \<le> i then Inr (xs ! nat (int (length xs) + i))
      else Inl IndexError)"

text \<open>Lines 397--398: the blend weight from the time left in the scene.\<close>

definition crossfade_alpha :: "real \<Rightarrow> real" where
  "crossfade_alpha time_to_end = smoothstep (1 - time_to_end / CROSSFADE_DURATION)"

text \<open>
  The body of the loop of \<^verbatim>\<open>build_video\<close> (lines 373--411) up to the write, for one
  \<^verbatim>\<open>frame_idx\<close>. The progress indicator only prints.
\<close>

definition render_frame ::
  "config \<Rightarrow> image list \<Rightarrow> string list \<Rightarrow> cue list \<Rightarrow> real \<Rightarrow> nat \<Rightarrow> error + frame" where
  "render_frame cfg kb_frames effects captions dur_per_scene frame_idx =
     (if VIDEO_FPS cfg = 0 \<or> dur_per_scene = 0 then Inl ZeroDivisionError
      else
        let n_scenes = int (length kb_frames);
            t = real frame_idx / real_of_int (VIDEO_FPS cfg);
            scene_idx = min (py_int (t / dur_per_scene)) (n_scenes - 1);
            scene_start = real_of_int scene_idx * dur_per_scene;
            scene_progress = max 0 (min 1 ((t - scene_start) / dur_per_scene));
            scene_end = scene_start + dur_per_scene;
            time_to_end = scene_end - t;
            next_idx = scene_idx + 1
        in case py_index kb_frames scene_idx of Inl e \<Rightarrow> Inl e | Inr img \<Rightarrow>
           case py_index effects scene_idx of Inl e \<Rightarrow> Inl e | Inr effect \<Rightarrow>
           case apply_ken_burns cfg img effect scene_progress of Inl e \<Rightarrow> Inl e | Inr fa \<Rightarrow>
           case (if next_idx < n_scenes \<and> time_to_end < CROSSFADE_DURATION then
                   let alpha = crossfade_alpha time_to_end;
                       time_into_next = CROSSFADE_DURATION - time_to_end;
                       next_progress = max 0 (min 1 (time_into_next / dur_per_scene))
                   in case py_index kb_frames next_idx of Inl e \<Rightarrow> Inl e | Inr img_b \<Rightarrow>
                      case py_index effects next_idx of Inl e \<Rightarrow> Inl e | Inr effect_b \<Rightarrow>
                      case apply_ken_burns cfg img_b effect_b next_progress of
                        Inl e \<Rightarrow> Inl e
                      | Inr fb \<Rightarrow> Inr (Some (fb, alpha))
                 else Inr None) of
             Inl e \<Rightarrow> Inl e
           | Inr bl \<Rightarrow>
               let fr = \<lparr>fr_scene = scene_idx, fr_base = fa, fr_blend = bl, fr_captions = []\<rparr>
               in Inr (if captions \<noteq> [] then composite_caption fr captions t else fr))"

text \<open>
  The loop with its write to the encoder's standard input. \<^verbatim>\<open>BrokenPipeError\<close> ends the
  loop silently; any other exception leaves \<^verbatim>\<open>build_video\<close>. The result lists the frames
  written.
\<close>

definition pipe_open :: "nat option \<Rightarrow> nat \<Rightarrow> bool" where
  "pipe_open limit i = (case limit of None \<Rightarrow> True | Some k \<Rightarrow> i < k)"

fun write_frames :: "(nat \<Rightarrow> error + frame) \<Rightarrow> nat option \<Rightarrow> nat list \<Rightarrow> error + frame list" where
  "write_frames body limit [] = Inr []"
| "write_frames body limit (i # rest) =
     (case body i of
        Inl e \<Rightarrow> Inl e
      | Inr f \<Rightarrow>
          if pipe_open limit i then
            (case write_frames body limit rest of Inl e \<Rightarrow> Inl e | Inr fs \<Rightarrow> Inr (f # fs))
          else Inr [])"

definition total_frames :: "config \<Rightarrow> real \<Rightarrow> int" where
  "total_frames cfg target_dur = py_int (target_dur * real_of_int (VIDEO_FPS cfg))"

definition render_loop ::
  "config \<Rightarrow> image list \<Rightarrow> string list \<Rightarrow> cue list \<Rightarrow> real \<Rightarrow> nat option \<Rightarrow> int
     \<Rightarrow> error + frame list" where
  "render_loop cfg kb_frames effects captions dur_per_scene limit n_frames =
     write_frames (render_frame cfg kb_frames effects captions dur_per_scene) limit
       [0..<nat n_frames]"

text \<open>
  The caption step that ends the loop body, the number of frames the encoder takes of \<open>n\<close>
  offered, and the scenes that some frame of a list blends into their successor (the
  crossfade windows that occur in a render).
\<close>

definition with_captions :: "cue list \<Rightarrow> real \<Rightarrow> frame \<Rightarrow> frame" where
  "with_captions captions t fr = (if captions \<noteq> [] then composite_caption fr captions t else fr)"

definition frames_sent :: "nat option \<Rightarrow> nat \<Rightarrow> nat" where
  "frames_sent limit n = (case limit of None \<Rightarrow> n | Some k \<Rightarrow> min k n)"


text \<open>
  The loop body's frame time, scene index and time left in the scene, as functions of the
  frame index.
\<close>

definition frame_time :: "config \<Rightarrow> nat \<Rightarrow> real" where
  "frame_time cfg k = real k / real_of_int (VIDEO_FPS cfg)"

definition scene_index :: "config \<Rightarrow> nat \<Rightarrow> real \<Rightarrow> nat \<Rightarrow> int" where
  "scene_index cfg n dur k = min (py_int (frame_time cfg k / dur)) (int n - 1)"

definition time_to_end :: "config \<Rightarrow> nat \<Rightarrow> real \<Rightarrow> nat \<Rightarrow> real" where
  "time_to_end cfg n dur k =
     real_of_int (scene_index cfg n dur k) * dur + dur - frame_time cfg k"


section \<open>The public entry point\<close>

record video =
  v_path :: path
  v_target_dur :: real
  v_total_frames :: int
  v_frames :: "frame list"
  v_audio :: path

definition target_duration :: "config \<Rightarrow> real \<Rightarrow> real" where
  "target_duration cfg audio_seconds = min audio_seconds (real_of_int (MAX_DURATION cfg))"

definition build_video ::
  "config \<Rightarrow> world \<Rightarrow> path list \<Rightarrow> path \<Rightarrow> path option \<Rightarrow> path \<Rightarrow> path option
     \<Rightarrow> path list option \<Rightarrow> error + video" where
  "build_video cfg w scene_images voiceover_path captions_srt_path output_path
       background_music_path background_clips =
     (case get_ffmpeg w of Inl e \<Rightarrow> Inl e | Inr ffmpeg \<Rightarrow>
      case audio_duration w voiceover_path of Inl e \<Rightarrow> Inl e | Inr audio_seconds \<Rightarrow>
      let target_dur = target_duration cfg audio_seconds
      in case prepare_visuals cfg w scene_images background_clips of
           Inl e \<Rightarrow> Inl e
         | Inr kb_frames \<Rightarrow>
             let effects = map (\<lambda>i. KB_EFFECTS ! (random_index w i mod length KB_EFFECTS))
                             [0..<length kb_frames];
                 captions = (case captions_srt_path of
                               None \<Rightarrow> []
                             | Some srt \<Rightarrow> if file_exists w srt then srt_cues w srt else []);
                 audio_path = mix_audio w voiceover_path background_music_path target_dur;
                 n_frames = total_frames cfg target_dur;
                 n_scenes = int (length kb_frames);
                 dur_per_scene = target_dur / real_of_int n_scenes
             in case render_loop cfg kb_frames effects captions dur_per_scene
                       (encoder_limit w) n_frames of
                  Inl e \<Rightarrow> Inl e
                | Inr written \<Rightarrow>
                    if encoder_returncode w \<noteq> 0 then Inl (RuntimeError ''ffmpeg error'')
                    else Inr \<lparr>v_path = output_path, v_target_dur = target_dur,
                              v_total_frames = n_frames, v_frames = written,
                              v_audio = audio_path\<rparr>)"


section \<open>Sample inputs\<close>

text \<open>The canvas \<^verbatim>\<open>_resize_for_ken_burns\<close> produces under the default settings.\<close>

definition default_canvas :: "path \<Rightarrow> image" where
  "default_canvas p = \<lparr>img_asset = p, img_w = 1350, img_h = 2400\<rparr>"

text \<open>
  A world in which one image is unreadable, three narrations last 90, 10 and 1 seconds, a
  music file exists and the mixer fails; and a frame without captions.
\<close>

definition sample_world :: world where
  "sample_world =
     \<lparr>ffmpeg_exe = Some [''usr'', ''bin'', ''ffmpeg''],
      audio_len_ms =
        (\<lambda>p. if p = [''run'', ''voiceover.mp3''] then Some 90000
             else if p = [''run'', ''short.mp3''] then Some 10000
             else if p = [''run'', ''one_second.mp3''] then Some 1000
             else None),
      image_size = (\<lambda>p. if p = [''run'', ''broken.png''] then None else Some (1024, 1024)),
      clip_frame_size = (\<lambda>p. None),
      file_exists = (\<lambda>p. p = [''assets'', ''music'', ''bg.mp3'']),
      mix_returncode = (\<lambda>v m d. 1),
      srt_cues = (\<lambda>p. []),
      random_index = (\<lambda>i. i),
      encoder_limit = None,
      encoder_returncode = 0\<rparr>"

definition sample_frame :: frame where
  "sample_frame =
     \<lparr>fr_scene = 0,
      fr_base = \<lparr>kb_canvas = default_canvas [''scene.png''], kb_box = (135, 240, 1215, 2160),
                 kb_resampled = False, kb_size = (1080, 1920)\<rparr>,
      fr_blend = None, fr_captions = []\<rparr>"

section \<open>Facts about smoothstep\<close>

lemma cubic_mono:
  fixes x y :: real
  assumes "0 \<le> x" "x \<le> y" "y \<le> 1"
  shows "x * x * (3 - 2 * x) \<le> y * y * (3 - 2 * y)"
proof -
  have x1: "x \<le> 1" and y0: "0 \<le> y"
    using assms by linarith+
  have "x * y \<le> x * 1"
    by (rule mult_left_mono) (use assms in auto)
  moreover have "x * y \<le> 1 * y"
    by (rule mult_right_mono) (use x1 y0 in auto)
  moreover have "x * x \<le> x * 1"
    by (rule mult_left_mono) (use assms x1 in auto)
  moreover have "y * y \<le> y * 1"
    by (rule mult_left_mono) (use assms y0 in auto)
  ultimately have xy: "x * y \<le> x" "x * y \<le> y" and xx: "x * x \<le> x" and yy: "y * y \<le> y"
    by simp_all
  have "2 * (x * x + x * y + y * y) = 2 * (x * x) + (x * y + x * y) + 2 * (y * y)"
    by simp
  also have "\<dots> \<le> 2 * x + (x + y) + 2 * y"
    using xy xx yy by (intro add_mono) simp_all
  finally have pos: "0 \<le> 3 * (x + y) - 2 * (x * x + x * y + y * y)"
    by simp
  have "y * y * (3 - 2 * y) - x * x * (3 - 2 * x)
          = (y - x) * (3 * (x + y) - 2 * (x * x + x * y + y * y))"
    by (simp add: algebra_simps)
  moreover have "0 \<le> (y - x) * (3 * (x + y) - 2 * (x * x + x * y + y * y))"
    using pos assms by simp
  ultimately show ?thesis by linarith
qed

lemma smoothstep_mono_all: "a \<le> b \<Longrightarrow> smoothstep a \<le> smoothstep b"
proof -
  assume ab: "a \<le> b"
  have "0 \<le> max 0 (min 1 a)" "max 0 (min 1 a) \<le> max 0 (min 1 b)" "max 0 (min 1 b) \<le> 1"
    using ab by auto
  from cubic_mono [OF this] show ?thesis
    by (simp add: smoothstep_def Let_def)
qed

lemma smoothstep_clamp: "smoothstep (max 0 (min 1 t)) = smoothstep t"
  by (simp add: smoothstep_def Let_def)

lemma smoothstep_ge0: "0 \<le> smoothstep t"
proof -
  have "smoothstep 0 \<le> smoothstep (max 0 (min 1 t))"
    by (rule smoothstep_mono_all) simp
  then show ?thesis
    by (simp add: smoothstep_clamp) (simp add: smoothstep_def)
qed

lemma smoothstep_le1: "smoothstep t \<le> 1"
proof -
  have "smoothstep (max 0 (min 1 t)) \<le> smoothstep 1"
    by (rule smoothstep_mono_all) simp
  then show ?thesis
    by (simp add: smoothstep_clamp) (simp add: smoothstep_def)
qed




section \<open>Claims about the easing function\<close>



section \<open>The Ken Burns crop\<close>


lemma kb_rect_total: "iw \<noteq> 0 \<Longrightarrow> \<exists>r. kb_rect iw ih vw vh effect t = Inr r"
  by (simp add: kb_rect_def Let_def)

lemma clamp_axis:
  fixes lim :: int
  assumes "0 < lim"
  shows "0 \<le> max 0 (min c0 (lim - max 1 (min s0 lim))) \<and>
         max 0 (min c0 (lim - max 1 (min s0 lim)))
           < max 0 (min c0 (lim - max 1 (min s0 lim))) + max 1 (min s0 lim) \<and>
         max 0 (min c0 (lim - max 1 (min s0 lim))) + max 1 (min s0 lim) \<le> lim"
  using assms by (auto simp: max_def min_def)

lemma apply_ken_burns_result:
  assumes "kb_rect (img_w img) (img_h img) (VIDEO_WIDTH cfg) (VIDEO_HEIGHT cfg) effect
             (smoothstep progress) = Inr (cx0, cy0, cw0, ch0)"
    and "cw = max 1 (min cw0 (img_w img))" and "ch = max 1 (min ch0 (img_h img))"
    and "cx = max 0 (min cx0 (img_w img - cw))" and "cy = max 0 (min cy0 (img_h img - ch))"
  shows "apply_ken_burns cfg img effect progress =
           Inr \<lparr>kb_canvas = img, kb_box = (cx, cy, cx + cw, cy + ch),
                kb_resampled = (cw \<noteq> VIDEO_WIDTH cfg \<or> ch \<noteq> VIDEO_HEIGHT cfg),
                kb_size = (VIDEO_WIDTH cfg, VIDEO_HEIGHT cfg)\<rparr>"
  unfolding assms(2-5) apply_ken_burns_def Let_def assms(1)
  by (simp add: pil_crop_def pil_resize_def)

lemma apply_ken_burns_in_bounds:
  assumes "0 < img_w img" "0 < img_h img"
  shows "\<exists>f. apply_ken_burns cfg img effect progress = Inr f \<and>
           (case kb_box f of (l, u, r, b) \<Rightarrow>
              0 \<le> l \<and> l < r \<and> r \<le> img_w img \<and> 0 \<le> u \<and> u < b \<and> b \<le> img_h img) \<and>
           kb_size f = (VIDEO_WIDTH cfg, VIDEO_HEIGHT cfg)"
proof -
  from assms obtain cx0 cy0 cw0 ch0 where
    r: "kb_rect (img_w img) (img_h img) (VIDEO_WIDTH cfg) (VIDEO_HEIGHT cfg) effect
          (smoothstep progress) = Inr (cx0, cy0, cw0, ch0)"
    using kb_rect_total [of "img_w img"] by (metis less_irrefl prod_cases4)
  define cw where "cw = max 1 (min cw0 (img_w img))"
  define ch where "ch = max 1 (min ch0 (img_h img))"
  define cx where "cx = max 0 (min cx0 (img_w img - cw))"
  define cy where "cy = max 0 (min cy0 (img_h img - ch))"
  have x: "0 \<le> cx \<and> cx < cx + cw \<and> cx + cw \<le> img_w img"
    unfolding cx_def cw_def by (rule clamp_axis [OF assms(1)])
  have y: "0 \<le> cy \<and> cy < cy + ch \<and> cy + ch \<le> img_h img"
    unfolding cy_def ch_def by (rule clamp_axis [OF assms(2)])
  show ?thesis
    unfolding apply_ken_burns_result [OF r cw_def ch_def cx_def cy_def]
    using x y by simp
qed

lemma apply_ken_burns_total:
  "img_w img \<noteq> 0 \<Longrightarrow> \<exists>f. apply_ken_burns cfg img effect progress = Inr f"
proof -
  assume "img_w img \<noteq> 0"
  then obtain cx0 cy0 cw0 ch0 where
    "kb_rect (img_w img) (img_h img) (VIDEO_WIDTH cfg) (VIDEO_HEIGHT cfg) effect
          (smoothstep progress) = Inr (cx0, cy0, cw0, ch0)"
    using kb_rect_total [of "img_w img"] by (metis prod_cases4)
  from apply_ken_burns_result [OF this refl refl refl refl] show ?thesis
    by blast
qed





text \<open>
  C2. For every effect kind among the eight (indeed for any effect name) and every progress
  value in \<open>[0,1]\<close> (indeed for any progress), on a canvas with at least one pixel the Ken
  Burns function returns a frame, the box it crops lies inside the canvas bounds and is not
  empty, and the returned frame has exactly the size \<open>VIDEO_WIDTH \<times> VIDEO_HEIGHT\<close>.
\<close>

theorem C2_crop_within_canvas:
  assumes "0 < img_w img" and "0 < img_h img"
    and "effect \<in> set KB_EFFECTS" and "0 \<le> progress" and "progress \<le> 1"
  shows "\<exists>f. apply_ken_burns cfg img effect progress = Inr f \<and>
           (case kb_box f of (l, u, r, b) \<Rightarrow>
              0 \<le> l \<and> l < r \<and> r \<le> img_w img \<and> 0 \<le> u \<and> u < b \<and> b \<le> img_h img) \<and>
           kb_size f = (VIDEO_WIDTH cfg, VIDEO_HEIGHT cfg)"
  using assms(1,2) by (rule apply_ken_burns_in_bounds)

theorem C2_witness:
  "0 < img_w (default_canvas [''scene.png'']) \<and> 0 < img_h (default_canvas [''scene.png'']) \<and>
   ''zoom_in_pan_right'' \<in> set KB_EFFECTS \<and> (0::real) \<le> 7 / 10 \<and> (7 / 10 :: real) \<le> 1 \<and>
   (\<exists>f. apply_ken_burns default_config (default_canvas [''scene.png'']) ''zoom_in_pan_right''
           (7 / 10) = Inr f \<and>
        (case kb_box f of (l, u, r, b) \<Rightarrow>
           0 \<le> l \<and> l < r \<and> r \<le> img_w (default_canvas [''scene.png'']) \<and>
           0 \<le> u \<and> u < b \<and> b \<le> img_h (default_canvas [''scene.png''])) \<and>
        kb_size f = (VIDEO_WIDTH default_config, VIDEO_HEIGHT default_config))"
proof -
  have h: "0 < img_w (default_canvas [''scene.png''])" "0 < img_h (default_canvas [''scene.png''])"
    "''zoom_in_pan_right'' \<in> set KB_EFFECTS" "(0::real) \<le> 7 / 10" "(7 / 10 :: real) \<le> 1"
    by (simp_all add: default_canvas_def KB_EFFECTS_def)
  show ?thesis
    by (intro conjI h C2_crop_within_canvas [OF h])
qed



text \<open>
  C10. Smoothstep is defined on every real input and clamps it first:
  \<open>smoothstep t = smoothstep (max 0 (min 1 t))\<close>, and its result lies in \<open>[0,1]\<close>. So the Ken
  Burns function at a progress outside \<open>[0,1]\<close> returns what it returns at the nearest
  endpoint: at 0 for a progress below 0, at 1 for a progress above 1.
\<close>

theorem C10_smoothstep_clamps:
  "smoothstep t = smoothstep (max 0 (min 1 t)) \<and> 0 \<le> smoothstep t \<and> smoothstep t \<le> 1 \<and>
   apply_ken_burns cfg img effect p = apply_ken_burns cfg img effect (max 0 (min 1 p)) \<and>
   (p \<le> 0 \<longrightarrow> apply_ken_burns cfg img effect p = apply_ken_burns cfg img effect 0) \<and>
   (1 \<le> p \<longrightarrow> apply_ken_burns cfg img effect p = apply_ken_burns cfg img effect 1)"
proof -
  have e: "apply_ken_burns cfg img effect q = apply_ken_burns cfg img effect (max 0 (min 1 q))"
    for q
    by (simp add: apply_ken_burns_def smoothstep_clamp)
  have "p \<le> 0 \<Longrightarrow> max 0 (min 1 p) = 0" "1 \<le> p \<Longrightarrow> max 0 (min 1 p) = 1"
    by simp_all
  then show ?thesis
    using e [of p] by (auto simp: smoothstep_clamp smoothstep_ge0 smoothstep_le1)
qed

theorem C10_witness:
  "(- 3 :: real) \<le> 0 \<and> (1 :: real) \<le> 5 \<and>
   apply_ken_burns default_config (default_canvas [''scene.png'']) ''pan_right'' (- 3)
     = apply_ken_burns default_config (default_canvas [''scene.png'']) ''pan_right'' 0 \<and>
   apply_ken_burns default_config (default_canvas [''scene.png'']) ''pan_right'' 5
     = apply_ken_burns default_config (default_canvas [''scene.png'']) ''pan_right'' 1 \<and>
   smoothstep 5 = smoothstep 1 \<and> smoothstep (- 3) = smoothstep 0"
proof -
  note lo = C10_smoothstep_clamps [of "- 3" default_config "default_canvas [''scene.png'']"
              "''pan_right''" "- 3"]
  note hi = C10_smoothstep_clamps [of 5 default_config "default_canvas [''scene.png'']"
              "''pan_right''" 5]
  have a: "(- 3 :: real) \<le> 0" and b: "(1 :: real) \<le> 5"
    by simp_all
  have c: "max 0 (min 1 (- 3 :: real)) = 0" "max 0 (min 1 (5 :: real)) = 1"
    by simp_all
  from lo have "apply_ken_burns default_config (default_canvas [''scene.png'']) ''pan_right'' (- 3)
     = apply_ken_burns default_config (default_canvas [''scene.png'']) ''pan_right'' 0"
    using a by blast
  moreover from hi have "apply_ken_burns default_config (default_canvas [''scene.png'']) ''pan_right'' 5
     = apply_ken_burns default_config (default_canvas [''scene.png'']) ''pan_right'' 1"
    using b by blast
  moreover have "smoothstep 5 = smoothstep 1" "smoothstep (- 3) = smoothstep 0"
    using hi [THEN conjunct1] lo [THEN conjunct1] unfolding c by blast+
  ultimately show ?thesis
    using a b by blast
qed


section \<open>Captions\<close>

lemma foldl_paste_captions:
  "fr_captions (foldl paste_caption base cs) = fr_captions base @ cs"
  by (induction cs arbitrary: base) (simp_all add: paste_caption_def)


lemma composite_caption_captions:
  "fr_captions (composite_caption base captions t) =
     fr_captions base @ filter (\<lambda>c. cue_start c \<le> t \<and> t < cue_end c) captions"
  by (simp add: composite_caption_def Let_def foldl_paste_captions)


lemma render_frame_captions:
  assumes "render_frame cfg kb_frames effects captions dur_per_scene frame_idx = Inr f"
  shows "fr_captions f =
           filter (\<lambda>c. cue_start c \<le> real frame_idx / real_of_int (VIDEO_FPS cfg) \<and>
                        real frame_idx / real_of_int (VIDEO_FPS cfg) < cue_end c) captions"
  using assms unfolding render_frame_def Let_def
  by (auto split: if_splits sum.splits simp: composite_caption_captions)

text \<open>
  C7. For every cue list and every frame time \<open>t\<close>, the overlay pasted on a frame without
  captions is that of exactly the cues of the list with \<open>start \<le> t < end\<close> (start inclusive,
  end exclusive), all of them, in list order, however their windows overlap; the frames of
  the render loop carry exactly the cues active at \<open>frame_idx / VIDEO_FPS\<close>.
\<close>

theorem C7_active_cues_rendered:
  assumes "fr_captions base = []"
  shows "fr_captions (composite_caption base captions t)
           = filter (\<lambda>c. cue_start c \<le> t \<and> t < cue_end c) captions \<and>
         (\<forall>c. c \<in> set (fr_captions (composite_caption base captions t)) \<longleftrightarrow>
               c \<in> set captions \<and> cue_start c \<le> t \<and> t < cue_end c) \<and>
         (\<forall>f. render_frame cfg kb_frames effects captions dur_per_scene frame_idx = Inr f \<longrightarrow>
               (\<forall>c. c \<in> set (fr_captions f) \<longleftrightarrow>
                  c \<in> set captions \<and> cue_start c \<le> real frame_idx / real_of_int (VIDEO_FPS cfg) \<and>
                  real frame_idx / real_of_int (VIDEO_FPS cfg) < cue_end c))"
  using assms by (auto simp: composite_caption_captions render_frame_captions)

theorem C7_witness:
  "fr_captions sample_frame = [] \<and>
   fr_captions (composite_caption sample_frame
      [\<lparr>cue_start = 0, cue_end = 2, cue_text = ''hello''\<rparr>,
       \<lparr>cue_start = 1, cue_end = 3, cue_text = ''world''\<rparr>,
       \<lparr>cue_start = 3 / 2, cue_end = 4, cue_text = ''again''\<rparr>,
       \<lparr>cue_start = 2, cue_end = 5, cue_text = ''later''\<rparr>] (3 / 2))
     = [\<lparr>cue_start = 0, cue_end = 2, cue_text = ''hello''\<rparr>,
        \<lparr>cue_start = 1, cue_end = 3, cue_text = ''world''\<rparr>,
        \<lparr>cue_start = 3 / 2, cue_end = 4, cue_text = ''again''\<rparr>] \<and>
   fr_captions (composite_caption sample_frame
      [\<lparr>cue_start = 0, cue_end = 2, cue_text = ''hello''\<rparr>,
       \<lparr>cue_start = 1, cue_end = 3, cue_text = ''world''\<rparr>] 2)
     = [\<lparr>cue_start = 1, cue_end = 3, cue_text = ''world''\<rparr>]"
proof -
  have h: "fr_captions sample_frame = []"
    by (simp add: sample_frame_def)
  show ?thesis
    unfolding C7_active_cues_rendered [OF h, THEN conjunct1] using h by simp
qed

section \<open>Skipped assets\<close>

lemma load_append:
  "load_images_for_kb cfg w (ps @ qs) = load_images_for_kb cfg w ps @ load_images_for_kb cfg w qs"
  by (induction ps) (auto split: option.splits sum.splits)

lemma extract_append:
  "extract_clip_frames_for_kb cfg w (ps @ qs)
     = extract_clip_frames_for_kb cfg w ps @ extract_clip_frames_for_kb cfg w qs"
  by (induction ps) (auto split: option.splits sum.splits)

lemma load_skips:
  assumes "load_images_for_kb cfg w [p] = []"
  shows "load_images_for_kb cfg w (ps @ p # qs) = load_images_for_kb cfg w (ps @ qs)"
proof -
  have "load_images_for_kb cfg w (ps @ [p] @ qs) = load_images_for_kb cfg w (ps @ qs)"
    unfolding load_append assms by simp
  then show ?thesis by simp
qed

lemma extract_skips:
  assumes "extract_clip_frames_for_kb cfg w [p] = []"
  shows "extract_clip_frames_for_kb cfg w (ps @ p # qs) = extract_clip_frames_for_kb cfg w (ps @ qs)"
proof -
  have "extract_clip_frames_for_kb cfg w (ps @ [p] @ qs) = extract_clip_frames_for_kb cfg w (ps @ qs)"
    unfolding extract_append assms by simp
  then show ?thesis by simp
qed

lemma prepare_visuals_iff:
  "(\<exists>e. prepare_visuals cfg w imgs clips = Inl e) \<longleftrightarrow> usable_visuals cfg w imgs clips = []"
  by (auto simp: prepare_visuals_def usable_visuals_def Let_def split: option.splits if_splits)

lemma prepare_visuals_ok:
  "usable_visuals cfg w imgs clips \<noteq> [] \<Longrightarrow>
     prepare_visuals cfg w imgs clips = Inr (usable_visuals cfg w imgs clips)"
  by (auto simp: prepare_visuals_def usable_visuals_def Let_def split: option.splits if_splits)

text \<open>
  C9. An asset that fails to load (or a clip whose frame cannot be extracted) is skipped:
  the loaders return what they return without it, and never raise. The visual-preparation
  step of \<^verbatim>\<open>build_video\<close> raises if and only if no usable visual remains after loading,
  which includes the case that neither images nor clips were supplied; otherwise it returns
  the usable visuals.
\<close>

theorem C9_failed_assets_skipped:
  "(load_images_for_kb cfg w [p] = [] \<longrightarrow>
      load_images_for_kb cfg w (ps @ p # qs) = load_images_for_kb cfg w (ps @ qs)) \<and>
   (image_size w p = None \<longrightarrow> load_images_for_kb cfg w [p] = []) \<and>
   (extract_clip_frames_for_kb cfg w [p] = [] \<longrightarrow>
      extract_clip_frames_for_kb cfg w (ps @ p # qs) = extract_clip_frames_for_kb cfg w (ps @ qs)) \<and>
   (clip_frame_size w p = None \<longrightarrow> extract_clip_frames_for_kb cfg w [p] = []) \<and>
   ((\<exists>e. prepare_visuals cfg w scene_images background_clips = Inl e) \<longleftrightarrow>
      usable_visuals cfg w scene_images background_clips = []) \<and>
   (usable_visuals cfg w scene_images background_clips \<noteq> [] \<longrightarrow>
      prepare_visuals cfg w scene_images background_clips
        = Inr (usable_visuals cfg w scene_images background_clips)) \<and>
   usable_visuals cfg w [] None = [] \<and> usable_visuals cfg w [] (Some []) = []"
  using load_skips [of cfg w p ps qs] extract_skips [of cfg w p ps qs]
    prepare_visuals_iff [of cfg w scene_images background_clips]
    prepare_visuals_ok [of cfg w scene_images background_clips]
  by (simp add: usable_visuals_def)

theorem C9_witness:
  "image_size sample_world [''run'', ''broken.png''] = None \<and>
   load_images_for_kb default_config sample_world
      ([[''run'', ''a.png'']] @ [''run'', ''broken.png''] # [[''run'', ''c.png'']])
     = [default_canvas [''run'', ''a.png''], default_canvas [''run'', ''c.png'']] \<and>
   (\<exists>e. prepare_visuals default_config sample_world [[''run'', ''broken.png'']] None = Inl e) \<and>
   (\<exists>e. prepare_visuals default_config sample_world [] None = Inl e)"
proof -
  note c = C9_failed_assets_skipped [of default_config sample_world "[''run'', ''broken.png'']"
             "[[''run'', ''a.png'']]" "[[''run'', ''c.png'']]"]
  have h: "image_size sample_world [''run'', ''broken.png''] = None"
    by (simp add: sample_world_def)
  then have f: "load_images_for_kb default_config sample_world [[''run'', ''broken.png'']] = []"
    using c by blast
  have l: "load_images_for_kb default_config sample_world
             ([[''run'', ''a.png'']] @ [[''run'', ''c.png'']])
           = [default_canvas [''run'', ''a.png''], default_canvas [''run'', ''c.png'']]"
    by (simp add: sample_world_def resize_for_ken_burns_def default_config_def KB_SCALE_def
          py_int_def Let_def pil_crop_def pil_resize_def default_canvas_def)
  have s: "load_images_for_kb default_config sample_world
      ([[''run'', ''a.png'']] @ [''run'', ''broken.png''] # [[''run'', ''c.png'']])
     = [default_canvas [''run'', ''a.png''], default_canvas [''run'', ''c.png'']]"
    using c f l by presburger
  have u1: "usable_visuals default_config sample_world [[''run'', ''broken.png'']] None = []"
    using f by (simp add: usable_visuals_def)
  have u2: "usable_visuals default_config sample_world [] None = []"
    by (simp add: usable_visuals_def)
  have e1: "\<exists>e. prepare_visuals default_config sample_world [[''run'', ''broken.png'']] None = Inl e"
    using C9_failed_assets_skipped [of default_config sample_world _ _ _
            "[[''run'', ''broken.png'']]" None] u1 by blast
  have e2: "\<exists>e. prepare_visuals default_config sample_world [] None = Inl e"
    using C9_failed_assets_skipped [of default_config sample_world _ _ _ "[]" None] u2 by blast
  show ?thesis
    by (intro conjI h s e1 e2)
qed

section \<open>The render loop and the entry point\<close>


lemma render_frame_plain:
  assumes "VIDEO_FPS cfg \<noteq> 0" "dur \<noteq> 0"
    and t: "t = real k / real_of_int (VIDEO_FPS cfg)"
    and si: "si = min (py_int (t / dur)) (int (length kb_frames) - 1)"
    and "py_index kb_frames si = Inr img" "py_index effects si = Inr effect"
    and "apply_ken_burns cfg img effect (max 0 (min 1 ((t - real_of_int si * dur) / dur))) = Inr fa"
    and "\<not> (si + 1 < int (length kb_frames) \<and> real_of_int si * dur + dur - t < CROSSFADE_DURATION)"
  shows "render_frame cfg kb_frames effects captions dur k =
           Inr (with_captions captions t
                  \<lparr>fr_scene = si, fr_base = fa, fr_blend = None, fr_captions = []\<rparr>)"
  unfolding render_frame_def Let_def t [symmetric] si [symmetric]
  using assms(1,2,5-8) by (auto simp: with_captions_def)

lemma render_frame_blend:
  assumes "VIDEO_FPS cfg \<noteq> 0" "dur \<noteq> 0"
    and t: "t = real k / real_of_int (VIDEO_FPS cfg)"
    and si: "si = min (py_int (t / dur)) (int (length kb_frames) - 1)"
    and "py_index kb_frames si = Inr img" "py_index effects si = Inr effect"
    and "apply_ken_burns cfg img effect (max 0 (min 1 ((t - real_of_int si * dur) / dur))) = Inr fa"
    and "si + 1 < int (length kb_frames) \<and> real_of_int si * dur + dur - t < CROSSFADE_DURATION"
    and "py_index kb_frames (si + 1) = Inr img_b" "py_index effects (si + 1) = Inr effect_b"
    and "apply_ken_burns cfg img_b effect_b
           (max 0 (min 1 ((CROSSFADE_DURATION - (real_of_int si * dur + dur - t)) / dur))) = Inr fb"
  shows "render_frame cfg kb_frames effects captions dur k =
           Inr (with_captions captions t
                  \<lparr>fr_scene = si, fr_base = fa,
                   fr_blend = Some (fb, crossfade_alpha (real_of_int si * dur + dur - t)),
                   fr_captions = []\<rparr>)"
  unfolding render_frame_def Let_def t [symmetric] si [symmetric]
  using assms(1,2,5-11) by (simp add: with_captions_def)


lemma py_index_nth:
  "0 \<le> i \<Longrightarrow> i < int (length xs) \<Longrightarrow> py_index xs i = Inr (xs ! nat i)"
  by (simp add: py_index_def)

lemma py_int_nonneg: "0 \<le> x \<Longrightarrow> py_int x = \<lfloor>x\<rfloor>"
  by (simp add: py_int_def)

lemma render_frame_ok:
  assumes fps: "0 < VIDEO_FPS cfg" and dur: "0 < dur" and ne: "kb_frames \<noteq> []"
    and len: "length effects = length kb_frames"
    and wd: "\<forall>img\<in>set kb_frames. img_w img \<noteq> 0"
    and t: "t = real k / real_of_int (VIDEO_FPS cfg)"
    and si: "si = min (py_int (t / dur)) (int (length kb_frames) - 1)"
  shows "\<exists>fa bl. render_frame cfg kb_frames effects captions dur k =
             Inr (with_captions captions t
                    \<lparr>fr_scene = si, fr_base = fa, fr_blend = bl, fr_captions = []\<rparr>) \<and>
           (bl \<noteq> None \<longleftrightarrow>
              si + 1 < int (length kb_frames) \<and>
              real_of_int si * dur + dur - t < CROSSFADE_DURATION) \<and>
           (bl \<noteq> None \<longrightarrow>
              (\<exists>fb. bl = Some (fb, crossfade_alpha (real_of_int si * dur + dur - t)))) \<and>
           0 \<le> si \<and> si < int (length kb_frames)"
proof -
  have f0: "VIDEO_FPS cfg \<noteq> 0" and d0: "dur \<noteq> 0"
    using fps dur by simp_all
  have "0 \<le> t"
    using fps by (simp add: t)
  then have "0 \<le> t / dur"
    using dur by simp
  then have "0 \<le> py_int (t / dur)"
    by (simp add: py_int_nonneg)
  moreover have n1: "1 \<le> int (length kb_frames)"
    using ne by (cases kb_frames) simp_all
  ultimately have si0: "0 \<le> si" and sin: "si < int (length kb_frames)"
    unfolding si by linarith+
  have ia: "py_index kb_frames si = Inr (kb_frames ! nat si)"
    and ea: "py_index effects si = Inr (effects ! nat si)"
    using si0 sin len by (simp_all add: py_index_nth)
  have "kb_frames ! nat si \<in> set kb_frames"
    using si0 sin by simp
  then have "img_w (kb_frames ! nat si) \<noteq> 0"
    using wd by blast
  then obtain fa where fa: "apply_ken_burns cfg (kb_frames ! nat si) (effects ! nat si)
      (max 0 (min 1 ((t - real_of_int si * dur) / dur))) = Inr fa"
    using apply_ken_burns_total by blast
  show ?thesis
  proof (cases "si + 1 < int (length kb_frames) \<and>
                real_of_int si * dur + dur - t < CROSSFADE_DURATION")
    case False
    from render_frame_plain [OF f0 d0 t si ia ea fa False]
    show ?thesis using False si0 sin by blast
  next
    case True
    then have nx: "0 \<le> si + 1" "si + 1 < int (length kb_frames)"
      using si0 by simp_all
    have ib: "py_index kb_frames (si + 1) = Inr (kb_frames ! nat (si + 1))"
      and eb: "py_index effects (si + 1) = Inr (effects ! nat (si + 1))"
      using nx len by (simp_all add: py_index_nth)
    have "kb_frames ! nat (si + 1) \<in> set kb_frames"
      using nx by simp
    then have "img_w (kb_frames ! nat (si + 1)) \<noteq> 0"
      using wd by blast
    then obtain fb where fb: "apply_ken_burns cfg (kb_frames ! nat (si + 1)) (effects ! nat (si + 1))
        (max 0 (min 1 ((CROSSFADE_DURATION - (real_of_int si * dur + dur - t)) / dur))) = Inr fb"
      using apply_ken_burns_total by blast
    from render_frame_blend [OF f0 d0 t si ia ea fa True ib eb fb]
    show ?thesis using True si0 sin by blast
  qed
qed


lemma write_frames_all:
  assumes "\<forall>i\<in>set idxs. \<exists>f. body i = Inr f"
  shows "write_frames body limit idxs =
           Inr (map (\<lambda>i. projr (body i)) (takeWhile (pipe_open limit) idxs))"
  using assms by (induction idxs) auto

lemma takeWhile_snoc_stop: "\<not> P x \<Longrightarrow> takeWhile P (xs @ [x]) = takeWhile P xs"
  by (induction xs) auto

lemma takeWhile_less_upt: "takeWhile (\<lambda>i. i < k) [0..<n] = [0..<min k n]"
proof (induction n)
  case 0
  show ?case by simp
next
  case (Suc n)
  show ?case
  proof (cases "n < k")
    case True
    then have "takeWhile (\<lambda>i. i < k) ([0..<n] @ [n]) = [0..<n] @ takeWhile (\<lambda>i. i < k) [n]"
      by (intro takeWhile_append2) simp
    moreover have "min k (Suc n) = Suc n"
      using True by simp
    ultimately show ?thesis using True by simp
  next
    case False
    then have "takeWhile (\<lambda>i. i < k) ([0..<n] @ [n]) = takeWhile (\<lambda>i. i < k) [0..<n]"
      by (intro takeWhile_snoc_stop)
    moreover have "min k (Suc n) = min k n"
      using False by simp
    ultimately show ?thesis using False Suc by simp
  qed
qed

lemma takeWhile_pipe_open: "takeWhile (pipe_open limit) [0..<n] = [0..<frames_sent limit n]"
proof (cases limit)
  case None
  then show ?thesis by (simp add: pipe_open_def frames_sent_def)
next
  case (Some k)
  have "pipe_open (Some k) = (\<lambda>i. i < k)"
    by (rule ext) (simp add: pipe_open_def)
  then show ?thesis using Some by (simp add: takeWhile_less_upt frames_sent_def)
qed

lemma total_frames_pos:
  assumes "0 < VIDEO_FPS cfg" "0 < total_frames cfg D"
  shows "0 < D"
proof (rule ccontr)
  assume "\<not> 0 < D"
  then have "D * real_of_int (VIDEO_FPS cfg) \<le> 0"
    using assms(1) by (simp add: mult_le_0_iff)
  then have "py_int (D * real_of_int (VIDEO_FPS cfg)) \<le> 0"
    by (auto simp: py_int_def ceiling_le_zero)
  then show False using assms(2) by (simp add: total_frames_def)
qed


lemma render_loop_ok:
  assumes fps: "0 < VIDEO_FPS cfg" and ne: "kb_frames \<noteq> []"
    and len: "length effects = length kb_frames"
    and wd: "\<forall>img\<in>set kb_frames. img_w img \<noteq> 0"
  shows "render_loop cfg kb_frames effects captions (D / real (length kb_frames)) limit
           (total_frames cfg D) =
         Inr (map (\<lambda>k. projr (render_frame cfg kb_frames effects captions
                                  (D / real (length kb_frames)) k))
                [0..<frames_sent limit (nat (total_frames cfg D))])"
proof -
  have "\<exists>f. render_frame cfg kb_frames effects captions (D / real (length kb_frames)) k = Inr f"
    if "k \<in> set [0..<nat (total_frames cfg D)]" for k
  proof -
    from that have "0 < total_frames cfg D" by simp
    then have "0 < D" using fps total_frames_pos by blast
    moreover have "0 < real (length kb_frames)" using ne by simp
    ultimately have "0 < D / real (length kb_frames)" by simp
    from render_frame_ok [OF fps this ne len wd refl refl] show ?thesis by blast
  qed
  then show ?thesis
    unfolding render_loop_def by (simp add: write_frames_all takeWhile_pipe_open)
qed


lemma resize_for_ken_burns_size:
  assumes "resize_for_ken_burns cfg img = Inr c"
  shows "img_w c = py_int (real_of_int (VIDEO_WIDTH cfg) * KB_SCALE) \<and>
         img_h c = py_int (real_of_int (VIDEO_HEIGHT cfg) * KB_SCALE) \<and>
         img_asset c = img_asset img"
  using assms unfolding resize_for_ken_burns_def Let_def
  by (auto simp: pil_crop_def pil_resize_def split: if_splits)

lemma target_w_pos:
  assumes "0 < VIDEO_WIDTH cfg"
  shows "0 < py_int (real_of_int (VIDEO_WIDTH cfg) * KB_SCALE)"
proof -
  have "1 \<le> real_of_int (VIDEO_WIDTH cfg)"
    using assms by simp
  then have "1 \<le> real_of_int (VIDEO_WIDTH cfg) * KB_SCALE"
    by (simp add: KB_SCALE_def)
  then have "1 \<le> \<lfloor>real_of_int (VIDEO_WIDTH cfg) * KB_SCALE\<rfloor>"
    by linarith
  then show ?thesis
    using \<open>1 \<le> real_of_int (VIDEO_WIDTH cfg) * KB_SCALE\<close> by (simp add: py_int_def)
qed

lemma load_images_width:
  "c \<in> set (load_images_for_kb cfg w ps) \<Longrightarrow>
     img_w c = py_int (real_of_int (VIDEO_WIDTH cfg) * KB_SCALE)"
  by (induction ps) (auto split: option.splits sum.splits dest: resize_for_ken_burns_size)

lemma extract_clip_frames_width:
  "c \<in> set (extract_clip_frames_for_kb cfg w ps) \<Longrightarrow>
     img_w c = py_int (real_of_int (VIDEO_WIDTH cfg) * KB_SCALE)"
  by (induction ps) (auto split: option.splits sum.splits dest: resize_for_ken_burns_size)

lemma usable_visuals_width:
  assumes "0 < VIDEO_WIDTH cfg"
  shows "\<forall>c\<in>set (usable_visuals cfg w imgs clips). img_w c \<noteq> 0"
  using target_w_pos [OF assms]
  by (auto simp: usable_visuals_def dest!: load_images_width extract_clip_frames_width
        split: if_splits option.splits)

lemma build_video_result:
  assumes fps: "0 < VIDEO_FPS cfg" and vw: "0 < VIDEO_WIDTH cfg"
    and ff: "ffmpeg_exe w = Some ffmpeg"
    and au: "audio_len_ms w voiceover = Some ms"
    and us: "usable_visuals cfg w imgs clips \<noteq> []"
    and rc: "encoder_returncode w = 0"
    and D: "D = target_duration cfg (real ms / 1000)"
    and kbs: "kbs = usable_visuals cfg w imgs clips"
    and effs: "effs = map (\<lambda>i. KB_EFFECTS ! (random_index w i mod length KB_EFFECTS))
                        [0..<length kbs]"
    and caps: "caps = (case srt of None \<Rightarrow> []
                       | Some p \<Rightarrow> if file_exists w p then srt_cues w p else [])"
  shows "build_video cfg w imgs voiceover srt out music clips =
           Inr \<lparr>v_path = out, v_target_dur = D, v_total_frames = total_frames cfg D,
                v_frames = map (\<lambda>k. projr (render_frame cfg kbs effs caps
                                                (D / real (length kbs)) k))
                             [0..<frames_sent (encoder_limit w) (nat (total_frames cfg D))],
                v_audio = mix_audio w voiceover music D\<rparr>"
proof -
  have ne: "kbs \<noteq> []" using us kbs by simp
  have len: "length effs = length kbs" by (simp add: effs)
  have wd: "\<forall>img\<in>set kbs. img_w img \<noteq> 0"
    unfolding kbs by (rule usable_visuals_width [OF vw])
  have pv: "prepare_visuals cfg w imgs clips = Inr kbs"
    unfolding kbs by (rule prepare_visuals_ok [OF us])
  note rl = render_loop_ok [OF fps ne len wd, of caps D "encoder_limit w"]
  show ?thesis
    unfolding build_video_def Let_def get_ffmpeg_def audio_duration_def
    by (simp add: ff au pv rc rl D [symmetric] effs [symmetric] caps [symmetric])
qed

section \<open>Duration and audio\<close>

lemma sample_usable:
  "usable_visuals default_config sample_world [[''run'', ''a.png'']] None
     = [default_canvas [''run'', ''a.png'']]"
  by (simp add: usable_visuals_def sample_world_def resize_for_ken_burns_def default_config_def
        KB_SCALE_def py_int_def Let_def pil_crop_def pil_resize_def default_canvas_def)

lemma build_video_target_dur:
  assumes "audio_len_ms w voiceover = Some ms"
    and "build_video cfg w imgs voiceover srt out music clips = Inr v"
  shows "v_target_dur v = target_duration cfg (real ms / 1000)"
  using assms(2) unfolding build_video_def Let_def audio_duration_def assms(1)
  by (auto split: sum.splits if_splits)

text \<open>
  C4. The total render duration is the minimum of the narration's duration and the
  configured cap, so it never exceeds the cap: this holds of the function and of every video
  \<^verbatim>\<open>build_video\<close> returns. A 90-second narration under the default cap of 59 seconds
  gives exactly 59 seconds.
\<close>

theorem C4_duration_capped:
  "target_duration cfg audio_seconds = min audio_seconds (real_of_int (MAX_DURATION cfg)) \<and>
   target_duration cfg audio_seconds \<le> real_of_int (MAX_DURATION cfg) \<and>
   target_duration default_config 90 = 59 \<and>
   (audio_len_ms w voiceover = Some ms \<and>
    build_video cfg w imgs voiceover srt out music clips = Inr v \<longrightarrow>
      v_target_dur v = min (real ms / 1000) (real_of_int (MAX_DURATION cfg)) \<and>
      v_target_dur v \<le> real_of_int (MAX_DURATION cfg))"
proof -
  have "target_duration default_config 90 = 59"
    by (simp add: target_duration_def default_config_def)
  then show ?thesis
    using build_video_target_dur [of w voiceover ms cfg imgs srt out music clips v]
    by (auto simp: target_duration_def)
qed

theorem C4_witness:
  "\<exists>v. audio_len_ms sample_world [''run'', ''voiceover.mp3''] = Some 90000 \<and>
       build_video default_config sample_world [[''run'', ''a.png'']] [''run'', ''voiceover.mp3'']
         None [''out.mp4''] None None = Inr v \<and>
       v_target_dur v = 59"
proof -
  have au: "audio_len_ms sample_world [''run'', ''voiceover.mp3''] = Some 90000"
    by (simp add: sample_world_def)
  have ok: "0 < VIDEO_FPS default_config" "0 < VIDEO_WIDTH default_config"
    "ffmpeg_exe sample_world = Some [''usr'', ''bin'', ''ffmpeg'']"
    "usable_visuals default_config sample_world [[''run'', ''a.png'']] None \<noteq> []"
    "encoder_returncode sample_world = 0"
    by (simp_all add: sample_usable) (simp_all add: default_config_def sample_world_def)
  from build_video_result [OF ok(1,2,3) au ok(4,5) refl refl refl refl]
  obtain v where v: "build_video default_config sample_world [[''run'', ''a.png'']]
      [''run'', ''voiceover.mp3''] None [''out.mp4''] None None = Inr v"
    by blast
  from C4_duration_capped [of default_config _ sample_world "[''run'', ''voiceover.mp3'']" 90000
         "[[''run'', ''a.png'']]" None "[''out.mp4'']" None None v] au v
  have "v_target_dur v = min (real 90000 / 1000) (real_of_int (MAX_DURATION default_config))"
    by blast
  then have "v_target_dur v = 59"
    by (simp add: default_config_def)
  then show ?thesis using au v by blast
qed

lemma build_video_music_only_in_mix:
  assumes "\<forall>d. mix_audio w voiceover music d = mix_audio w voiceover music' d"
  shows "build_video cfg w imgs voiceover srt out music clips
           = build_video cfg w imgs voiceover srt out music' clips"
  unfolding build_video_def Let_def by (simp add: assms split: sum.splits)

text \<open>
  C8. Without a background-music asset (and also when the asset's file does not exist) the
  mixing step returns the narration file itself. When the mixer's return code is not zero
  the step returns the narration file as well; it has no failing outcome, and
  \<^verbatim>\<open>build_video\<close> then does exactly what it does without music.
\<close>

theorem C8_mix_failure_falls_back:
  "mix_audio w voiceover None dur = voiceover \<and>
   (\<not> file_exists w m \<longrightarrow> mix_audio w voiceover (Some m) dur = voiceover) \<and>
   (mix_returncode w voiceover m dur \<noteq> 0 \<longrightarrow> mix_audio w voiceover (Some m) dur = voiceover) \<and>
   ((\<forall>d. mix_returncode w voiceover m d \<noteq> 0) \<longrightarrow>
      build_video cfg w imgs voiceover srt out (Some m) clips
        = build_video cfg w imgs voiceover srt out None clips)"
proof -
  have "build_video cfg w imgs voiceover srt out (Some m) clips
        = build_video cfg w imgs voiceover srt out None clips"
    if "\<forall>d. mix_returncode w voiceover m d \<noteq> 0"
    by (rule build_video_music_only_in_mix) (use that in \<open>simp add: mix_audio_def\<close>)
  then show ?thesis
    by (simp add: mix_audio_def)
qed

theorem C8_witness:
  "file_exists sample_world [''assets'', ''music'', ''bg.mp3''] \<and>
   (\<forall>d. mix_returncode sample_world [''run'', ''voiceover.mp3''] [''assets'', ''music'', ''bg.mp3''] d \<noteq> 0) \<and>
   mix_audio sample_world [''run'', ''voiceover.mp3''] (Some [''assets'', ''music'', ''bg.mp3'']) 59
     = [''run'', ''voiceover.mp3''] \<and>
   (\<exists>v. build_video default_config sample_world [[''run'', ''a.png'']] [''run'', ''voiceover.mp3'']
         None [''out.mp4''] (Some [''assets'', ''music'', ''bg.mp3'']) None = Inr v \<and>
        v_audio v = [''run'', ''voiceover.mp3''])"
proof -
  note c = C8_mix_failure_falls_back [of sample_world "[''run'', ''voiceover.mp3'']" 59
             "[''assets'', ''music'', ''bg.mp3'']" default_config "[[''run'', ''a.png'']]" None
             "[''out.mp4'']" None]
  have fe: "file_exists sample_world [''assets'', ''music'', ''bg.mp3'']"
    and rc: "\<forall>d. mix_returncode sample_world [''run'', ''voiceover.mp3'']
                  [''assets'', ''music'', ''bg.mp3''] d \<noteq> 0"
    by (simp_all add: sample_world_def)
  have mx: "mix_audio sample_world [''run'', ''voiceover.mp3'']
              (Some [''assets'', ''music'', ''bg.mp3'']) 59 = [''run'', ''voiceover.mp3'']"
    using c rc by blast
  have eq: "build_video default_config sample_world [[''run'', ''a.png'']]
              [''run'', ''voiceover.mp3''] None [''out.mp4'']
              (Some [''assets'', ''music'', ''bg.mp3'']) None
            = build_video default_config sample_world [[''run'', ''a.png'']]
                [''run'', ''voiceover.mp3''] None [''out.mp4''] None None"
    using c rc by blast
  have au: "audio_len_ms sample_world [''run'', ''voiceover.mp3''] = Some 90000"
    by (simp add: sample_world_def)
  have ok: "0 < VIDEO_FPS default_config" "0 < VIDEO_WIDTH default_config"
    "ffmpeg_exe sample_world = Some [''usr'', ''bin'', ''ffmpeg'']"
    "usable_visuals default_config sample_world [[''run'', ''a.png'']] None \<noteq> []"
    "encoder_returncode sample_world = 0"
    by (simp_all add: sample_usable) (simp_all add: default_config_def sample_world_def)
  from build_video_result [OF ok(1,2,3) au ok(4,5) refl refl refl refl,
         of None "[''out.mp4'']" None]
  obtain v where v: "build_video default_config sample_world [[''run'', ''a.png'']]
      [''run'', ''voiceover.mp3''] None [''out.mp4''] None None = Inr v"
      and a: "v_audio v = mix_audio sample_world [''run'', ''voiceover.mp3''] None
                (target_duration default_config (real 90000 / 1000))"
    by fastforce
  have "v_audio v = [''run'', ''voiceover.mp3'']"
    unfolding a by (simp add: mix_audio_def)
  then show ?thesis
    using fe rc mx eq v by auto
qed

section \<open>The number of frames\<close>





section \<open>Crossfade windows\<close>























end
